theory Spec2Isabelle
  imports Main
begin

section \<open>Data model of \<open>src/contexts/AuthContext.tsx\<close>\<close>

text \<open>
  The provider component of \<open>AuthContext.tsx\<close> keeps four pieces of React state
  (\<open>user\<close>, \<open>isLoading\<close>, \<open>confirmation\<close>, \<open>viewAsState\<close>) and talks to four
  collaborators: the key/value store (\<open>AsyncStorage\<close>), the identity provider
  (Firebase phone sign-in), the backend (\<open>apiService\<close>) and the router. The embedding
  keeps the React state and the store in one record, logs every call to a collaborator
  in the order it is made, and takes the collaborators' answers from an environment.
\<close>

datatype UserRole = CUSTOMER

text \<open>Interface \<open>User\<close> (lines 20-35). The field \<open>id\<close> is written \<open>id'\<close>.\<close>

record User =
  id' :: string
  phone :: string
  role :: UserRole
  customerType :: UserRole
  franchiseId :: "string option"
  franchiseName :: "string option"
  permissions :: "string list"
  hasOnboarded :: bool
  name :: string
  email :: "string option"
  avatar :: "string option"
  address :: "string option"
  alternativePhone :: "string option"

text \<open>Interface \<open>ViewAsState\<close> (lines 37-45).\<close>

record ViewAsState =
  isViewingAs :: bool
  originalUser :: "User option"
  currentViewRole :: "UserRole option"
  targetFranchiseId :: "string option"
  targetUserId :: "string option"
  targetFranchiseName :: "string option"
  targetUserName :: "string option"

text \<open>
  The object literal of lines 86-90, 123-127, 244-248 and 298-302: the three listed
  fields, every optional field left out.
\<close>

definition emptyViewAs :: ViewAsState where
  "emptyViewAs =
     \<lparr>isViewingAs = False, originalUser = None, currentViewRole = None,
      targetFranchiseId = None, targetUserId = None,
      targetFranchiseName = None, targetUserName = None\<rparr>"

text \<open>
  A thrown value: what the catch blocks read of it is \<open>error.code\<close> and
  \<open>error.message\<close>. \<open>new Error(m)\<close> has a message and no code.
\<close>

datatype Thrown = Thrown (code: "string option") (message: "string option")

definition Error :: "string \<Rightarrow> Thrown" where
  "Error m = Thrown None (Some m)"

text \<open>
  Reading a property of \<open>undefined\<close> or \<open>null\<close> throws a \<open>TypeError\<close>; the
  wording of its message belongs to the JavaScript engine.
\<close>

definition TypeError :: Thrown where
  "TypeError = Error ''Cannot read property of undefined''"

text \<open>JavaScript's \<open>s || d\<close> on an optional string: absent and empty are both falsy.\<close>

definition or_else :: "string option \<Rightarrow> string \<Rightarrow> string" where
  "or_else v d = (case v of None \<Rightarrow> d | Some m \<Rightarrow> if m = [] then d else m)"

text \<open>The handle \<open>signInWithPhoneNumber\<close> returns, held in \<open>confirmation\<close>.\<close>

datatype Confirmation = Confirmation (verificationId: string)

text \<open>The body of \<open>POST /auth/login\<close> (lines 180-183) and the two responses.\<close>

datatype LoginBody = LoginBody (body_idToken: string) (body_role: string)

datatype LoginData =
  LoginData (accessToken: string) (refreshToken: string) (userData: "User option")

datatype LoginResponse =
  LoginResponse (login_success: bool) (login_data: "LoginData option")
    (login_error: "string option")

datatype MeData = MeData (me_user: "User option")

datatype MeResponse = MeResponse (me_success: bool) (me_data: "MeData option")

text \<open>Every call the component makes to a collaborator.\<close>

datatype Call =
    AsyncStorage_multiGet "string list"
  | AsyncStorage_multiSet "(string \<times> string) list"
  | AsyncStorage_multiRemove "string list"
  | signInWithPhoneNumber string
  | confirm Confirmation string
  | getIdToken
  | signOut
  | apiService_post string LoginBody
  | apiService_get string
  | router_replace string

text \<open>
  The collaborators' answers. Each answer may depend on everything called so far (the
  log, the call being answered last), so the same call can succeed once and fail later.
  \<open>Some e\<close> and \<open>Inl e\<close> are a rejected promise or a thrown exception. A store call
  that fails leaves the store as it was.
\<close>

record Env =
  storage_fault :: "Call list \<Rightarrow> Thrown option"
  signIn_outcome :: "Call list \<Rightarrow> Thrown + Confirmation"
  confirm_outcome :: "Call list \<Rightarrow> Thrown option"
  getIdToken_outcome :: "Call list \<Rightarrow> Thrown + string"
  signOut_outcome :: "Call list \<Rightarrow> Thrown option"
  post_outcome :: "Call list \<Rightarrow> Thrown + LoginResponse"
  get_outcome :: "Call list \<Rightarrow> Thrown + MeResponse"
  JSON_parse_User :: "string \<Rightarrow> Thrown + User option"
  JSON_parse_ViewAsState :: "string \<Rightarrow> Thrown + ViewAsState"
  JSON_stringify_User :: "User option \<Rightarrow> string"
  JSON_stringify_ViewAsState :: "ViewAsState \<Rightarrow> string"

text \<open>The React state of lines 83-90, the store, and the log of calls.\<close>

record Sys =
  user :: "User option"
  isLoading :: bool
  confirmation :: "Confirmation option"
  viewAsState :: ViewAsState
  storage :: "string \<rightharpoonup> string"
  calls :: "Call list"

text \<open>The state at mount (lines 83-90) over a given store.\<close>

definition mount :: "(string \<rightharpoonup> string) \<Rightarrow> Sys" where
  "mount st =
     \<lparr>user = None, isLoading = True, confirmation = None, viewAsState = emptyViewAs,
      storage = st, calls = []\<rparr>"

definition record_call :: "Call \<Rightarrow> Sys \<Rightarrow> Sys" where
  "record_call c s = s\<lparr>calls := calls s @ [c]\<rparr>"

section \<open>The operations\<close>

subsection \<open>\<open>clearAuthData\<close> (lines 256-263)\<close>

definition authKeys :: "string list" where
  "authKeys = [''accessToken'', ''refreshToken'', ''userProfile'', ''viewAsState'']"

text \<open>What a \<open>multiRemove\<close> that succeeds does to the store.\<close>

definition multiRemove :: "string list \<Rightarrow> (string \<rightharpoonup> string) \<Rightarrow> (string \<rightharpoonup> string)" where
  "multiRemove ks st = (\<lambda>k. if k \<in> set ks then None else st k)"

definition clearAuthData :: "Env \<Rightarrow> Sys \<Rightarrow> (Thrown + unit) \<times> Sys" where
  "clearAuthData env s =
     (let s1 = record_call (AsyncStorage_multiRemove authKeys) s in
      case storage_fault env (calls s1) of
        Some e \<Rightarrow> (Inl e, s1)
      | None \<Rightarrow> (Inr (), s1\<lparr>storage := multiRemove authKeys (storage s1)\<rparr>))"

subsection \<open>\<open>logout\<close> (lines 230-254)\<close>

text \<open>
  The \<open>try\<close> block: \<open>signOut\<close>, then the purge, then the three resets. A failure of
  either call leaves the block at once.
\<close>

definition logout_try :: "Env \<Rightarrow> Sys \<Rightarrow> (Thrown + unit) \<times> Sys" where
  "logout_try env s =
     (let s1 = record_call signOut (s\<lparr>isLoading := True\<rparr>) in
      case signOut_outcome env (calls s1) of
        Some e \<Rightarrow> (Inl e, s1)
      | None \<Rightarrow>
          (case clearAuthData env s1 of
             (Inl e, s2) \<Rightarrow> (Inl e, s2)
           | (Inr _, s2) \<Rightarrow>
               (Inr (), s2\<lparr>user := None, confirmation := None, viewAsState := emptyViewAs\<rparr>)))"

text \<open>The \<open>catch\<close> only logs to the console; \<open>finally\<close> clears \<open>isLoading\<close>.\<close>

definition logout :: "Env \<Rightarrow> Sys \<Rightarrow> (Thrown + unit) \<times> Sys" where
  "logout env s =
     (case logout_try env s of
        (Inr _, s1) \<Rightarrow> (Inr (), s1\<lparr>isLoading := False\<rparr>)
      | (Inl error, s1) \<Rightarrow> (Inr (), s1\<lparr>isLoading := False\<rparr>))"

subsection \<open>\<open>refreshUser\<close> (lines 268-307)\<close>

text \<open>
  The \<open>try\<close> block (lines 270-291). With \<open>success\<close> true, line 277 reads
  \<open>response.data.user.hasOnboarded\<close>: a response without \<open>data\<close>, or with an absent
  \<open>user\<close>, throws there, before \<open>setUser\<close> is called. A user that gets past line 277
  is an object, so the test of line 280 is true and the router is sent to
  \<open>/intialscreen\<close>.
\<close>

definition refreshUser_try :: "Env \<Rightarrow> Sys \<Rightarrow> (Thrown + unit) \<times> Sys" where
  "refreshUser_try env s =
     (let s1 = record_call (apiService_get ''/auth/me'') s in
      case get_outcome env (calls s1) of
        Inl e \<Rightarrow> (Inl e, s1)
      | Inr response \<Rightarrow>
          if me_success response then
            (case me_data response of
               None \<Rightarrow> (Inl TypeError, s1)
             | Some d \<Rightarrow>
                 (case me_user d of
                    None \<Rightarrow> (Inl TypeError, s1)
                  | Some u \<Rightarrow>
                      (Inr (),
                       record_call (router_replace ''/intialscreen'')
                         (s1\<lparr>user := Some (u\<lparr>hasOnboarded := hasOnboarded u\<rparr>)\<rparr>))))
          else
            (Inl (Error ''Failed to refresh user data''),
             record_call (router_replace ''/(auth)'') s1))"

text \<open>
  The \<open>catch\<close> block (lines 292-306): purge, reset \<open>user\<close> and \<open>viewAsState\<close>,
  redirect. A purge that fails throws out of \<open>refreshUser\<close>.
\<close>

definition refreshUser :: "Env \<Rightarrow> Sys \<Rightarrow> (Thrown + unit) \<times> Sys" where
  "refreshUser env s =
     (case refreshUser_try env s of
        (Inr _, s1) \<Rightarrow> (Inr (), s1)
      | (Inl error, s1) \<Rightarrow>
          (case clearAuthData env s1 of
             (Inl e, s2) \<Rightarrow> (Inl e, s2)
           | (Inr _, s2) \<Rightarrow>
               (Inr (),
                record_call (router_replace ''/(auth)'')
                  (s2\<lparr>user := None, viewAsState := emptyViewAs\<rparr>))))"

subsection \<open>\<open>initializeAuth\<close> (lines 98-136)\<close>

text \<open>The inner \<open>try\<close>/\<open>catch\<close> around \<open>refreshUser\<close> (lines 116-128).\<close>

definition initializeAuth_validate :: "Env \<Rightarrow> Sys \<Rightarrow> (Thrown + unit) \<times> Sys" where
  "initializeAuth_validate env s =
     (case refreshUser env s of
        (Inr _, s1) \<Rightarrow> (Inr (), s1)
      | (Inl error, s1) \<Rightarrow>
          (case clearAuthData env s1 of
             (Inl e, s2) \<Rightarrow> (Inl e, s2)
           | (Inr _, s2) \<Rightarrow> (Inr (), s2\<lparr>user := None, viewAsState := emptyViewAs\<rparr>)))"

text \<open>
  The outer \<open>try\<close> block (lines 100-129). The tests of lines 106 and 110 are
  truthiness: a value read from the store passes when it is present and not the empty
  string. \<open>setUser(parsedUser)\<close> of line 108 comes before the view-as blob is parsed at
  line 111.
\<close>

definition initializeAuth_try :: "Env \<Rightarrow> Sys \<Rightarrow> (Thrown + unit) \<times> Sys" where
  "initializeAuth_try env s =
     (let s1 = record_call
                 (AsyncStorage_multiGet [''accessToken'', ''userProfile'', ''viewAsState'']) s
      in
      case storage_fault env (calls s1) of
        Some e \<Rightarrow> (Inl e, s1)
      | None \<Rightarrow>
          (case (storage s1 ''accessToken'', storage s1 ''userProfile'') of
             (Some a, Some p) \<Rightarrow>
               if a \<noteq> [] \<and> p \<noteq> [] then
                 (case JSON_parse_User env p of
                    Inl e \<Rightarrow> (Inl e, s1)
                  | Inr parsedUser \<Rightarrow>
                      (let s2 = s1\<lparr>user := parsedUser\<rparr> in
                       case storage s2 ''viewAsState'' of
                         None \<Rightarrow> initializeAuth_validate env s2
                       | Some v \<Rightarrow>
                           if v \<noteq> [] then
                             (case JSON_parse_ViewAsState env v of
                                Inl e \<Rightarrow> (Inl e, s2)
                              | Inr parsedViewAs \<Rightarrow>
                                  initializeAuth_validate env (s2\<lparr>viewAsState := parsedViewAs\<rparr>))
                           else initializeAuth_validate env s2))
               else (Inr (), s1)
           | (_, _) \<Rightarrow> (Inr (), s1)))"

text \<open>
  The outer \<open>catch\<close> (lines 130-132) purges the store and nothing else; \<open>finally\<close>
  (line 134) clears \<open>isLoading\<close>.
\<close>

definition initializeAuth :: "Env \<Rightarrow> Sys \<Rightarrow> (Thrown + unit) \<times> Sys" where
  "initializeAuth env s =
     (case initializeAuth_try env s of
        (Inr _, s1) \<Rightarrow> (Inr (), s1\<lparr>isLoading := False\<rparr>)
      | (Inl error, s1) \<Rightarrow>
          (case clearAuthData env s1 of
             (r, s2) \<Rightarrow> (r, s2\<lparr>isLoading := False\<rparr>)))"

subsection \<open>\<open>sendOTP\<close> (lines 138-161)\<close>

text \<open>The class \<open>\D\<close> of the regular expression of line 145: not one of \<open>0\<close>-\<open>9\<close>.\<close>

definition nonDigit :: "char \<Rightarrow> bool" where
  "nonDigit c = (c \<notin> set ''0123456789'')"

text \<open>\<open>replace(/\D/g, '')\<close>: every match is replaced by the empty string.\<close>

primrec replace_nonDigits :: "string \<Rightarrow> string" where
  "replace_nonDigits [] = []"
| "replace_nonDigits (c # cs) =
     (if nonDigit c then [] else [c]) @ replace_nonDigits cs"

definition sendOTP ::
    "Env \<Rightarrow> string \<Rightarrow> UserRole \<Rightarrow> Sys \<Rightarrow> (Thrown + Confirmation) \<times> Sys" where
  "sendOTP env phoneNumber customerType' s =
     (let formattedPhone = ''+91'' @ replace_nonDigits phoneNumber;
          s1 = record_call (signInWithPhoneNumber formattedPhone) s
      in
      case signIn_outcome env (calls s1) of
        Inl error \<Rightarrow> (Inl error, s1)
      | Inr c \<Rightarrow> (Inr c, s1\<lparr>confirmation := Some c\<rparr>))"

subsection \<open>\<open>verifyOTP\<close> (lines 163-228)\<close>

record VerifyResult =
  nextScreen :: string
  success :: bool

text \<open>What a \<open>multiSet\<close> that succeeds does to the store.\<close>

definition multiSet :: "(string \<times> string) list \<Rightarrow> (string \<rightharpoonup> string) \<Rightarrow> (string \<rightharpoonup> string)" where
  "multiSet kvs st = fold (\<lambda>(k, v) m. m(k \<mapsto> v)) kvs st"

text \<open>
  \<open>verifyOTP\<close> is the one operation that reads React state: \<open>confirmation\<close>, at lines
  169 and 174. Every render declares \<open>const [confirmation, setConfirmation]\<close> (line 85)
  and creates a new function \<open>verifyOTP\<close> that closes over that constant, so a function
  \<open>verifyOTP\<close> reads the handle of the render that created it, whatever
  \<open>setConfirmation\<close> has been given since. The handle closed over is the first argument
  \<open>confirmation'\<close> below; \<open>setConfirmation\<close> writes the state cell, which the next
  render reads. The other operations only call setters, so for them the render does not
  matter.

  The \<open>try\<close> block (lines 168-210). The body posted at lines 180-183 is
  \<open>{idToken, role: 'customer'}\<close>: the parameter \<open>role\<close> (here \<open>role'\<close>) is not
  read.
\<close>

definition verifyOTP_closure_try ::
    "Confirmation option \<Rightarrow> Env \<Rightarrow> string \<Rightarrow> string \<Rightarrow> Sys \<Rightarrow>
       (Thrown + VerifyResult) \<times> Sys" where
  "verifyOTP_closure_try confirmation' env otp role' s =
     (let s0 = s\<lparr>isLoading := True\<rparr> in
      case confirmation' of
        None \<Rightarrow> (Inl (Error ''No OTP confirmation found. Please request a new OTP.''), s0)
      | Some c \<Rightarrow>
          (let s1 = record_call (confirm c otp) s0 in
           case confirm_outcome env (calls s1) of
             Some e \<Rightarrow> (Inl e, s1)
           | None \<Rightarrow>
               (let s2 = record_call getIdToken s1 in
                case getIdToken_outcome env (calls s2) of
                  Inl e \<Rightarrow> (Inl e, s2)
                | Inr idToken \<Rightarrow>
                    (let s3 = record_call
                                (apiService_post ''/auth/login'' (LoginBody idToken ''customer'')) s2
                     in
                     case post_outcome env (calls s3) of
                       Inl e \<Rightarrow> (Inl e, s3)
                     | Inr response \<Rightarrow>
                         if login_success response then
                           (case login_data response of
                              None \<Rightarrow> (Inl TypeError, s3)
                            | Some d \<Rightarrow>
                                (let kvs = [(''accessToken'', accessToken d),
                                            (''refreshToken'', refreshToken d),
                                            (''userProfile'', JSON_stringify_User env (userData d))];
                                     s4 = record_call (AsyncStorage_multiSet kvs) s3
                                 in
                                 case storage_fault env (calls s4) of
                                   Some e \<Rightarrow> (Inl e, s4)
                                 | None \<Rightarrow>
                                     (Inr \<lparr>nextScreen =
                                             (if userData d \<noteq> None then ''/intialscreen'' else ''/''),
                                           success = True\<rparr>,
                                      s4\<lparr>storage := multiSet kvs (storage s4),
                                         user := userData d, confirmation := None\<rparr>)))
                         else
                           (Inl (Error (or_else (login_error response) ''Login failed'')), s3)))))"

text \<open>The \<open>catch\<close> block (lines 211-224): the handle is dropped, then the error is
  thrown again under a message for the user.\<close>

definition verifyOTP_catch :: "Thrown \<Rightarrow> Sys \<Rightarrow> (Thrown + VerifyResult) \<times> Sys" where
  "verifyOTP_catch error s =
     (let s1 = s\<lparr>confirmation := None\<rparr> in
      if code error = Some ''auth/invalid-verification-code'' then
        (Inl (Error ''Invalid OTP. Please check the code and try again.''), s1)
      else if code error = Some ''auth/code-expired'' then
        (Inl (Error ''OTP has expired. Please request a new code.''), s1)
      else
        (Inl (Error (or_else (message error) ''OTP verification failed. Please try again.'')),
         s1))"

text \<open>The function \<open>verifyOTP\<close> of a render whose \<open>confirmation\<close> is \<open>confirmation'\<close>.\<close>

definition verifyOTP_closure ::
    "Confirmation option \<Rightarrow> Env \<Rightarrow> string \<Rightarrow> string \<Rightarrow> Sys \<Rightarrow>
       (Thrown + VerifyResult) \<times> Sys" where
  "verifyOTP_closure confirmation' env otp role' s =
     (case (case verifyOTP_closure_try confirmation' env otp role' s of
              (Inr v, s1) \<Rightarrow> (Inr v, s1)
            | (Inl error, s1) \<Rightarrow> verifyOTP_catch error s1) of
        (r, s2) \<Rightarrow> (r, s2\<lparr>isLoading := False\<rparr>))"

text \<open>
  A call through the function of the render of the current state: the handle read is the
  one the state holds.
\<close>

definition verifyOTP ::
    "Env \<Rightarrow> string \<Rightarrow> string \<Rightarrow> Sys \<Rightarrow> (Thrown + VerifyResult) \<times> Sys" where
  "verifyOTP env otp role' s = verifyOTP_closure (confirmation s) env otp role' s"

subsection \<open>The context value (lines 92 and 311-321)\<close>

record AuthContextType =
  ctx_user :: "User option"
  ctx_isLoading :: bool
  ctx_isAuthenticated :: bool
  ctx_viewAsState :: ViewAsState

text \<open>Line 92: \<open>const isAuthenticated = !!user\<close>, computed at every render.\<close>

definition isAuthenticated :: "Sys \<Rightarrow> bool" where
  "isAuthenticated s = (user s \<noteq> None)"

definition context_value :: "Sys \<Rightarrow> AuthContextType" where
  "context_value s =
     \<lparr>ctx_user = user s, ctx_isLoading = isLoading s,
      ctx_isAuthenticated = isAuthenticated s, ctx_viewAsState = viewAsState s\<rparr>"

text \<open>The setter \<open>setUser\<close> handed out in the context value (line 320).\<close>

definition setUser :: "User \<Rightarrow> Sys \<Rightarrow> Sys" where
  "setUser u s = s\<lparr>user := Some u\<rparr>"

subsection \<open>The view-as operations\<close>

text \<open>
  \<open>AuthContext.tsx\<close> declares the interface \<open>ViewAsState\<close> and holds a value of it in
  React state; it defines neither \<open>enterViewAs\<close> nor \<open>exitViewAs\<close>. Both are taken from
  section 4.2 of the specification.
\<close>

text \<open>Modelled from the spec: the target descriptors that \<open>enterViewAs\<close> takes
  (\<open>targetFranchiseId\<close>, \<open>targetUserId\<close> and the two names); the source has no type
  for them.\<close>

record TargetDescriptors =
  franchiseId_of :: "string option"
  userId_of :: "string option"
  franchiseName_of :: "string option"
  userName_of :: "string option"

text \<open>Modelled from the spec: "persists the new \<open>ViewAsState\<close> blob", a write the source
  never makes. The blob goes under the key \<open>viewAsState\<close>; the specification names no
  failure of this write, so the write is taken as done.\<close>

definition persistViewAs :: "Env \<Rightarrow> ViewAsState \<Rightarrow> Sys \<Rightarrow> Sys" where
  "persistViewAs env v s =
     (let kvs = [(''viewAsState'', JSON_stringify_ViewAsState env v)];
          s1 = record_call (AsyncStorage_multiSet kvs) s
      in s1\<lparr>storage := multiSet kvs (storage s1)\<rparr>)"

text \<open>Modelled from the spec: \<open>enterViewAs(targetRole, targetDescriptors)\<close>, missing from
  the source, "requires \<open>isViewingAs\<close> currently false; captures current \<open>user\<close> into
  \<open>originalUser\<close>, sets \<open>currentViewRole\<close> and target descriptors, sets
  \<open>isViewingAs=true\<close>, persists the new \<open>ViewAsState\<close> blob. Fails if already
  impersonating". \<open>None\<close> is the failure.\<close>

definition enterViewAs :: "Env \<Rightarrow> UserRole \<Rightarrow> TargetDescriptors \<Rightarrow> Sys \<Rightarrow> Sys option" where
  "enterViewAs env targetRole d s =
     (if isViewingAs (viewAsState s) then None
      else
        (let v = \<lparr>isViewingAs = True, originalUser = user s,
                  currentViewRole = Some targetRole,
                  targetFranchiseId = franchiseId_of d, targetUserId = userId_of d,
                  targetFranchiseName = franchiseName_of d, targetUserName = userName_of d\<rparr>
         in Some (persistViewAs env v (s\<lparr>viewAsState := v\<rparr>))))"

text \<open>Modelled from the spec: \<open>exitViewAs()\<close>, missing from the source, "requires
  \<open>isViewingAs\<close> true; restores \<open>user\<close> from \<open>originalUser\<close> unchanged, clears all
  view-as fields, persists the empty \<open>ViewAsState\<close>. No-op-safe if already false".\<close>

definition exitViewAs :: "Env \<Rightarrow> Sys \<Rightarrow> Sys" where
  "exitViewAs env s =
     (if isViewingAs (viewAsState s) then
        persistViewAs env emptyViewAs
          (s\<lparr>user := originalUser (viewAsState s), viewAsState := emptyViewAs\<rparr>)
      else s)"

section \<open>Sample values\<close>

text \<open>A profile, a store holding a session, and collaborators that all answer well.\<close>

definition sample_user :: User where
  "sample_user =
     \<lparr>id' = ''1'', phone = ''+919876543210'', role = CUSTOMER, customerType = CUSTOMER,
      franchiseId = None, franchiseName = None, permissions = [], hasOnboarded = True,
      name = ''Asha'', email = None, avatar = None, address = None,
      alternativePhone = None\<rparr>"

definition sample_store :: "string \<rightharpoonup> string" where
  "sample_store =
     [''accessToken'' \<mapsto> ''a'', ''refreshToken'' \<mapsto> ''b'', ''userProfile'' \<mapsto> ''profile-1'']"

definition sample_env :: Env where
  "sample_env =
     \<lparr>storage_fault = (\<lambda>h. None),
      signIn_outcome = (\<lambda>h. Inr (Confirmation ''v-1'')),
      confirm_outcome = (\<lambda>h. None),
      getIdToken_outcome = (\<lambda>h. Inr ''id-token''),
      signOut_outcome = (\<lambda>h. None),
      post_outcome = (\<lambda>h. Inr (LoginResponse True (Some (LoginData ''a'' ''b'' (Some sample_user))) None)),
      get_outcome = (\<lambda>h. Inr (MeResponse True (Some (MeData (Some sample_user))))),
      JSON_parse_User =
        (\<lambda>b. if b = ''profile-1'' then Inr (Some sample_user) else Inl (Error ''SyntaxError'')),
      JSON_parse_ViewAsState =
        (\<lambda>b. if b = ''view-as-0'' then Inr emptyViewAs else Inl (Error ''SyntaxError'')),
      JSON_stringify_User = (\<lambda>u. ''profile-1''),
      JSON_stringify_ViewAsState = (\<lambda>v. ''view-as-0'')\<rparr>"

text \<open>A session in memory over \<open>sample_store\<close>, with a code requested.\<close>

definition sample_session :: Sys where
  "sample_session =
     \<lparr>user = Some sample_user, isLoading = False,
      confirmation = Some (Confirmation ''v-1''), viewAsState = emptyViewAs,
      storage = sample_store, calls = []\<rparr>"

section \<open>Properties\<close>

subsection \<open>Facts shared by the proofs\<close>

lemma multiRemove_authKeys:
  "multiRemove authKeys st ''accessToken'' = None"
  "multiRemove authKeys st ''refreshToken'' = None"
  "multiRemove authKeys st ''userProfile'' = None"
  "multiRemove authKeys st ''viewAsState'' = None"
  by (simp_all add: multiRemove_def authKeys_def)

text \<open>
  \<open>refreshUser\<close> on an answer that the \<open>try\<close> block does not survive, with a store that
  works: the \<open>catch\<close> block runs to its end and \<open>refreshUser\<close> returns normally.
\<close>

lemma refreshUser_rejected:
  assumes out: "get_outcome env (calls s @ [apiService_get ''/auth/me'']) = out"
    and rej: "case out of Inl e \<Rightarrow> True
              | Inr r \<Rightarrow> \<not> me_success r \<or> me_data r = None \<or> me_data r = Some (MeData None)"
    and ok: "\<forall>h. storage_fault env h = None"
  shows "fst (refreshUser env s) = Inr ()"
    and "user (snd (refreshUser env s)) = None"
    and "viewAsState (snd (refreshUser env s)) = emptyViewAs"
    and "storage (snd (refreshUser env s)) = multiRemove authKeys (storage s)"
    and "isLoading (snd (refreshUser env s)) = isLoading s"
  using assms
  by (auto simp add: refreshUser_def refreshUser_try_def clearAuthData_def record_call_def Let_def
      split: sum.splits option.splits)

lemma initializeAuth_validate_rejected:
  assumes out: "get_outcome env (calls s @ [apiService_get ''/auth/me'']) = out"
    and rej: "case out of Inl e \<Rightarrow> True
              | Inr r \<Rightarrow> \<not> me_success r \<or> me_data r = None \<or> me_data r = Some (MeData None)"
    and ok: "\<forall>h. storage_fault env h = None"
  shows "fst (initializeAuth_validate env s) = Inr ()"
    and "user (snd (initializeAuth_validate env s)) = None"
    and "viewAsState (snd (initializeAuth_validate env s)) = emptyViewAs"
    and "storage (snd (initializeAuth_validate env s)) = multiRemove authKeys (storage s)"
  using refreshUser_rejected [OF assms]
  by (auto simp add: initializeAuth_validate_def split: prod.splits sum.splits)

subsection \<open>C1: a rejected credential is purged at start-up\<close>

text \<open>
  C1. The component is mounted over a store that holds a non-empty access credential and
  a non-empty profile that parses; the view-as blob is absent, empty or parses; the store
  itself works. If the call \<open>GET /auth/me\<close> made by \<open>initializeAuth\<close> is rejected (the
  request throws, the response has \<open>success\<close> false, or it has \<open>success\<close> true and no
  \<open>data\<close> or no \<open>user\<close> in it), then \<open>initializeAuth\<close> returns normally with \<open>user\<close>
  absent, \<open>viewAsState\<close> in its empty form, the four keys \<open>accessToken\<close>, \<open>refreshToken\<close>,
  \<open>userProfile\<close> and \<open>viewAsState\<close> out of the store, and \<open>isLoading\<close> false.
\<close>

theorem initializeAuth_validation_purge:
  assumes tok: "st ''accessToken'' = Some a" "a \<noteq> []"
    and prof: "st ''userProfile'' = Some p" "p \<noteq> []"
    and parsed: "JSON_parse_User env p = Inr parsedUser"
    and blob: "st ''viewAsState'' = None \<or> st ''viewAsState'' = Some [] \<or>
               (\<exists>v parsedViewAs. st ''viewAsState'' = Some v \<and>
                  JSON_parse_ViewAsState env v = Inr parsedViewAs)"
    and store_ok: "\<forall>h. storage_fault env h = None"
    and out: "get_outcome env
                [AsyncStorage_multiGet [''accessToken'', ''userProfile'', ''viewAsState''],
                 apiService_get ''/auth/me''] = out"
    and rejected: "case out of Inl e \<Rightarrow> True
              | Inr r \<Rightarrow> \<not> me_success r \<or> me_data r = None \<or> me_data r = Some (MeData None)"
  shows "fst (initializeAuth env (mount st)) = Inr () \<and>
         user (snd (initializeAuth env (mount st))) = None \<and>
         \<not> isAuthenticated (snd (initializeAuth env (mount st))) \<and>
         viewAsState (snd (initializeAuth env (mount st))) = emptyViewAs \<and>
         storage (snd (initializeAuth env (mount st))) ''accessToken'' = None \<and>
         storage (snd (initializeAuth env (mount st))) ''refreshToken'' = None \<and>
         storage (snd (initializeAuth env (mount st))) ''userProfile'' = None \<and>
         storage (snd (initializeAuth env (mount st))) ''viewAsState'' = None \<and>
         isLoading (snd (initializeAuth env (mount st))) = False"
proof -
  let ?get = "AsyncStorage_multiGet [''accessToken'', ''userProfile'', ''viewAsState'']"
  define s2 where "s2 = (record_call ?get (mount st))\<lparr>user := parsedUser\<rparr>"
  have s2: "calls s2 = [?get]" "storage s2 = st"
    by (simp_all add: s2_def record_call_def mount_def)
  have "\<exists>sv. initializeAuth_try env (mount st) = initializeAuth_validate env sv \<and>
          calls sv = [?get] \<and> storage sv = st"
  proof (cases "st ''viewAsState''")
    case None
    then have "initializeAuth_try env (mount st) = initializeAuth_validate env s2"
      using tok prof parsed store_ok
      by (simp add: initializeAuth_try_def Let_def s2_def record_call_def mount_def)
    with s2 show ?thesis by blast
  next
    case (Some v)
    show ?thesis
    proof (cases "v = []")
      case True
      with Some have "initializeAuth_try env (mount st) = initializeAuth_validate env s2"
        using tok prof parsed store_ok
        by (simp add: initializeAuth_try_def Let_def s2_def record_call_def mount_def)
      with s2 show ?thesis by blast
    next
      case False
      with Some blob obtain parsedViewAs where
        pv: "JSON_parse_ViewAsState env v = Inr parsedViewAs" by auto
      with Some False have "initializeAuth_try env (mount st) =
          initializeAuth_validate env (s2\<lparr>viewAsState := parsedViewAs\<rparr>)"
        using tok prof parsed store_ok
        by (simp add: initializeAuth_try_def Let_def s2_def record_call_def mount_def)
      moreover have "calls (s2\<lparr>viewAsState := parsedViewAs\<rparr>) = [?get]"
        "storage (s2\<lparr>viewAsState := parsedViewAs\<rparr>) = st"
        using s2 by simp_all
      ultimately show ?thesis by blast
    qed
  qed
  then obtain sv where sv: "initializeAuth_try env (mount st) = initializeAuth_validate env sv"
    "calls sv = [?get]" "storage sv = st" by blast
  have "get_outcome env (calls sv @ [apiService_get ''/auth/me'']) = out"
    using out sv(2) by simp
  note val = initializeAuth_validate_rejected [OF this rejected store_ok]
  obtain r s' where rs: "initializeAuth_validate env sv = (r, s')"
    by (cases "initializeAuth_validate env sv")
  with val sv(3) have s': "r = Inr ()" "user s' = None" "viewAsState s' = emptyViewAs"
    "storage s' = multiRemove authKeys st" by simp_all
  have "initializeAuth env (mount st) = (Inr (), s'\<lparr>isLoading := False\<rparr>)"
    using sv(1) rs s'(1) by (simp add: initializeAuth_def)
  then show ?thesis
    using s' by (simp add: isAuthenticated_def multiRemove_authKeys)
qed

text \<open>
  The theorem at \<open>sample_store\<close>, with a backend that answers \<open>{success: false}\<close>.
\<close>

theorem initializeAuth_validation_purge_witness:
  "sample_store ''accessToken'' = Some ''a'' \<and>
   sample_store ''userProfile'' = Some ''profile-1'' \<and>
   get_outcome (sample_env\<lparr>get_outcome := (\<lambda>h. Inr (MeResponse False None))\<rparr>)
     [AsyncStorage_multiGet [''accessToken'', ''userProfile'', ''viewAsState''],
      apiService_get ''/auth/me''] = Inr (MeResponse False None) \<and>
   user (snd (initializeAuth (sample_env\<lparr>get_outcome := (\<lambda>h. Inr (MeResponse False None))\<rparr>)
                (mount sample_store))) = None \<and>
   viewAsState (snd (initializeAuth (sample_env\<lparr>get_outcome := (\<lambda>h. Inr (MeResponse False None))\<rparr>)
                (mount sample_store))) = emptyViewAs \<and>
   storage (snd (initializeAuth (sample_env\<lparr>get_outcome := (\<lambda>h. Inr (MeResponse False None))\<rparr>)
                (mount sample_store))) ''accessToken'' = None \<and>
   storage (snd (initializeAuth (sample_env\<lparr>get_outcome := (\<lambda>h. Inr (MeResponse False None))\<rparr>)
                (mount sample_store))) ''refreshToken'' = None \<and>
   storage (snd (initializeAuth (sample_env\<lparr>get_outcome := (\<lambda>h. Inr (MeResponse False None))\<rparr>)
                (mount sample_store))) ''userProfile'' = None \<and>
   storage (snd (initializeAuth (sample_env\<lparr>get_outcome := (\<lambda>h. Inr (MeResponse False None))\<rparr>)
                (mount sample_store))) ''viewAsState'' = None"
proof -
  let ?env = "sample_env\<lparr>get_outcome := (\<lambda>h. Inr (MeResponse False None))\<rparr>"
  have tok: "sample_store ''accessToken'' = Some ''a''" "''a'' \<noteq> []"
    and prof: "sample_store ''userProfile'' = Some ''profile-1''" "''profile-1'' \<noteq> []"
    by (simp_all add: sample_store_def)
  have parsed: "JSON_parse_User ?env ''profile-1'' = Inr (Some sample_user)"
    by (simp add: sample_env_def)
  have blob: "sample_store ''viewAsState'' = None \<or> sample_store ''viewAsState'' = Some [] \<or>
      (\<exists>v parsedViewAs. sample_store ''viewAsState'' = Some v \<and>
          JSON_parse_ViewAsState ?env v = Inr parsedViewAs)"
    by (simp add: sample_store_def)
  have store_ok: "\<forall>h. storage_fault ?env h = None"
    by (simp add: sample_env_def)
  have out: "get_outcome ?env
      [AsyncStorage_multiGet [''accessToken'', ''userProfile'', ''viewAsState''],
       apiService_get ''/auth/me''] = Inr (MeResponse False None)"
    by simp
  have rejected: "case Inr (MeResponse False None) of Inl e \<Rightarrow> True
      | Inr r \<Rightarrow> \<not> me_success r \<or> me_data r = None \<or> me_data r = Some (MeData None)"
    by simp
  show ?thesis
    using initializeAuth_validation_purge [OF tok prof parsed blob store_ok out rejected] tok prof out
    by simp
qed

subsection \<open>C2: \<open>logout\<close>\<close>

text \<open>\<open>logout\<close> never rejects: the \<open>catch\<close> block swallows whatever the \<open>try\<close> block throws.\<close>

lemma logout_resolves: "fst (logout env s) = Inr ()"
  by (simp add: logout_def split: prod.splits sum.splits)

text \<open>When the sign-out and the purge both succeed, everything is cleared.\<close>

lemma logout_clears:
  assumes "signOut_outcome env (calls s @ [signOut]) = None"
    and "storage_fault env (calls s @ [signOut, AsyncStorage_multiRemove authKeys]) = None"
  shows "logout env s =
     (Inr (), s\<lparr>user := None, isLoading := False, confirmation := None,
               viewAsState := emptyViewAs, storage := multiRemove authKeys (storage s),
               calls := calls s @ [signOut, AsyncStorage_multiRemove authKeys]\<rparr>)"
  using assms
  by (simp add: logout_def logout_try_def clearAuthData_def record_call_def Let_def)

text \<open>
  A second \<open>logout\<close> that succeeds as well leaves what the first one left: only the log
  grows.
\<close>

lemma multiRemove_idem: "multiRemove ks (multiRemove ks st) = multiRemove ks st"
  by (auto simp add: multiRemove_def)

lemma logout_twice:
  assumes "signOut_outcome env (calls s @ [signOut]) = None"
    and "storage_fault env (calls s @ [signOut, AsyncStorage_multiRemove authKeys]) = None"
    and "signOut_outcome env2
           (calls s @ [signOut, AsyncStorage_multiRemove authKeys, signOut]) = None"
    and "storage_fault env2
           (calls s @ [signOut, AsyncStorage_multiRemove authKeys,
                       signOut, AsyncStorage_multiRemove authKeys]) = None"
  shows "snd (logout env2 (snd (logout env s))) =
           (snd (logout env s))\<lparr>calls := calls s @ [signOut, AsyncStorage_multiRemove authKeys,
                                                 signOut, AsyncStorage_multiRemove authKeys]\<rparr>"
  using assms
  by (simp add: logout_clears multiRemove_idem)

text \<open>
  When the sign-out is rejected, the purge and the resets of lines 239-248 are skipped:
  \<open>logout\<close> resolves and the only change is the log.
\<close>

lemma logout_signOut_rejected:
  "signOut_outcome env (calls s @ [signOut]) = Some e \<Longrightarrow>
   logout env s = (Inr (), s\<lparr>isLoading := False, calls := calls s @ [signOut]\<rparr>)"
  by (simp add: logout_def logout_try_def record_call_def Let_def)

text \<open>
  C2. The claim says that \<open>logout\<close> purges the four keys and resets \<open>user\<close>, the pending
  challenge and \<open>viewAsState\<close> also when the identity provider's sign-out fails. The code
  at that input: a session is held, \<open>signOut\<close> rejects with \<open>auth/no-current-user\<close>;
  \<open>logout\<close> resolves, and the user, the pending challenge and the three stored values are
  all still there.
\<close>

theorem logout_keeps_session_when_signOut_fails:
  "logout (sample_env\<lparr>signOut_outcome :=
             (\<lambda>h. Some (Thrown (Some ''auth/no-current-user'')
                           (Some ''No user currently signed in.'')))\<rparr>)
          sample_session
     = (Inr (), sample_session\<lparr>calls := [signOut]\<rparr>) \<and>
   user (sample_session\<lparr>calls := [signOut]\<rparr>) = Some sample_user \<and>
   confirmation (sample_session\<lparr>calls := [signOut]\<rparr>) = Some (Confirmation ''v-1'') \<and>
   storage (sample_session\<lparr>calls := [signOut]\<rparr>) ''accessToken'' = Some ''a'' \<and>
   storage (sample_session\<lparr>calls := [signOut]\<rparr>) ''refreshToken'' = Some ''b'' \<and>
   storage (sample_session\<lparr>calls := [signOut]\<rparr>) ''userProfile'' = Some ''profile-1''"
  by (simp add: logout_signOut_rejected sample_session_def sample_store_def)

subsection \<open>C3: a failed exchange writes nothing\<close>

text \<open>
  C3. A challenge is pending, the provider confirms the code and hands out an identity
  token, and the backend answers \<open>POST /auth/login\<close> with \<open>success\<close> false. Then
  \<open>verifyOTP\<close> fails with the response's \<open>error\<close> as its message, or with
  \<open>Login failed\<close> when the response carries no error or an empty one; the pending challenge
  is cleared; the store is what it was, and the only calls made are the confirmation, the
  token request and the post: no \<open>multiSet\<close>.
\<close>

theorem verifyOTP_exchange_failure:
  assumes pending: "confirmation s = Some c"
    and confirmed: "confirm_outcome env (calls s @ [confirm c otp]) = None"
    and token: "getIdToken_outcome env (calls s @ [confirm c otp, getIdToken]) = Inr idToken"
    and answer: "post_outcome env
        (calls s @ [confirm c otp, getIdToken,
                    apiService_post ''/auth/login'' (LoginBody idToken ''customer'')]) = Inr response"
    and failure: "\<not> login_success response"
  shows "fst (verifyOTP env otp role' s) =
           Inl (Error (case login_error response of
                         None \<Rightarrow> ''Login failed''
                       | Some m \<Rightarrow> if m = [] then ''Login failed'' else m)) \<and>
         confirmation (snd (verifyOTP env otp role' s)) = None \<and>
         storage (snd (verifyOTP env otp role' s)) = storage s \<and>
         calls (snd (verifyOTP env otp role' s)) =
           calls s @ [confirm c otp, getIdToken,
                      apiService_post ''/auth/login'' (LoginBody idToken ''customer'')] \<and>
         user (snd (verifyOTP env otp role' s)) = user s \<and>
         isLoading (snd (verifyOTP env otp role' s)) = False"
  using assms
  by (simp add: verifyOTP_def verifyOTP_closure_def verifyOTP_closure_try_def verifyOTP_catch_def
        record_call_def Let_def Error_def or_else_def split: option.splits)

text \<open>Scenario D of the specification: the backend answers \<open>{success: false, error: "banned"}\<close>.\<close>

theorem verifyOTP_exchange_failure_witness:
  "fst (verifyOTP (sample_env\<lparr>post_outcome := (\<lambda>h. Inr (LoginResponse False None (Some ''banned'')))\<rparr>)
          ''123456'' ''customer'' sample_session) = Inl (Error ''banned'') \<and>
   confirmation (snd (verifyOTP (sample_env\<lparr>post_outcome := (\<lambda>h. Inr (LoginResponse False None (Some ''banned'')))\<rparr>)
          ''123456'' ''customer'' sample_session)) = None \<and>
   storage (snd (verifyOTP (sample_env\<lparr>post_outcome := (\<lambda>h. Inr (LoginResponse False None (Some ''banned'')))\<rparr>)
          ''123456'' ''customer'' sample_session)) = sample_store"
proof -
  let ?env = "sample_env\<lparr>post_outcome := (\<lambda>h. Inr (LoginResponse False None (Some ''banned'')))\<rparr>"
  let ?c = "Confirmation ''v-1''"
  have pending: "confirmation sample_session = Some ?c"
    by (simp add: sample_session_def)
  have confirmed: "confirm_outcome ?env (calls sample_session @ [confirm ?c ''123456'']) = None"
    by (simp add: sample_env_def)
  have token: "getIdToken_outcome ?env
      (calls sample_session @ [confirm ?c ''123456'', getIdToken]) = Inr ''id-token''"
    by (simp add: sample_env_def)
  have answer: "post_outcome ?env
      (calls sample_session @ [confirm ?c ''123456'', getIdToken,
         apiService_post ''/auth/login'' (LoginBody ''id-token'' ''customer'')])
      = Inr (LoginResponse False None (Some ''banned''))"
    by simp
  have failure: "\<not> login_success (LoginResponse False None (Some ''banned''))"
    by simp
  show ?thesis
    using verifyOTP_exchange_failure [OF pending confirmed token answer failure, of "''customer''"]
    by (simp add: sample_session_def)
qed

subsection \<open>C4: a view-as blob that does not parse\<close>

text \<open>
  With a credential and a profile that parses, \<open>setUser(parsedUser)\<close> has run when the
  view-as blob is parsed; the outer \<open>catch\<close> purges the store and leaves \<open>user\<close> alone.
\<close>

lemma initializeAuth_viewAs_parse_error:
  assumes tok: "st ''accessToken'' = Some a" "a \<noteq> []"
    and prof: "st ''userProfile'' = Some p" "p \<noteq> []"
    and parsed: "JSON_parse_User env p = Inr parsedUser"
    and blob: "st ''viewAsState'' = Some v" "v \<noteq> []"
    and bad: "JSON_parse_ViewAsState env v = Inl e"
    and store_ok: "\<forall>h. storage_fault env h = None"
  shows "initializeAuth env (mount st) =
     (Inr (), (mount st)\<lparr>user := parsedUser, isLoading := False,
                storage := multiRemove authKeys st,
                calls := [AsyncStorage_multiGet [''accessToken'', ''userProfile'', ''viewAsState''],
                          AsyncStorage_multiRemove authKeys]\<rparr>)"
  using assms
  by (simp add: initializeAuth_def initializeAuth_try_def clearAuthData_def record_call_def
      Let_def mount_def)

text \<open>
  C4. The claim says that whenever deserializing the persisted state fails, \<open>user\<close> is
  absent once \<open>initializeAuth\<close> is over. The code at a store that holds a credential, a
  profile that parses and the view-as blob \<open>{\<close>, which does not: \<open>initializeAuth\<close>
  returns normally with the stored profile as \<open>user\<close>, so \<open>isAuthenticated\<close> is true, over
  a purged store, and the backend was never asked.
\<close>

theorem initializeAuth_malformed_viewAs_keeps_user:
  "user (snd (initializeAuth sample_env (mount (sample_store(''viewAsState'' \<mapsto> ''{''))))) =
     Some sample_user \<and>
   isAuthenticated (snd (initializeAuth sample_env (mount (sample_store(''viewAsState'' \<mapsto> ''{''))))) \<and>
   fst (initializeAuth sample_env (mount (sample_store(''viewAsState'' \<mapsto> ''{'')))) = Inr () \<and>
   calls (snd (initializeAuth sample_env (mount (sample_store(''viewAsState'' \<mapsto> ''{''))))) =
     [AsyncStorage_multiGet [''accessToken'', ''userProfile'', ''viewAsState''],
      AsyncStorage_multiRemove authKeys] \<and>
   storage (snd (initializeAuth sample_env (mount (sample_store(''viewAsState'' \<mapsto> ''{'')))))
     ''accessToken'' = None"
proof -
  let ?st = "sample_store(''viewAsState'' \<mapsto> ''{'')"
  have "initializeAuth sample_env (mount ?st) =
     (Inr (), (mount ?st)\<lparr>user := Some sample_user, isLoading := False,
                storage := multiRemove authKeys ?st,
                calls := [AsyncStorage_multiGet [''accessToken'', ''userProfile'', ''viewAsState''],
                          AsyncStorage_multiRemove authKeys]\<rparr>)"
    by (rule initializeAuth_viewAs_parse_error [where a = "''a''" and p = "''profile-1''"
          and v = "''{''" and e = "Error ''SyntaxError''"])
       (simp_all add: sample_store_def sample_env_def)
  then show ?thesis
    by (simp add: isAuthenticated_def multiRemove_def authKeys_def)
qed

subsection \<open>C5: the authenticated flag\<close>

text \<open>
  C5. In the context value of any state, \<open>isAuthenticated\<close> is true exactly when \<open>user\<close>
  is present. No other component of the state has a say in it: changing \<open>isLoading\<close>, the
  pending challenge, \<open>viewAsState\<close>, the store or the log leaves it as it is; it is true
  after \<open>setUser\<close> and false once \<open>user\<close> is absent.
\<close>

theorem isAuthenticated_derived:
  "ctx_isAuthenticated (context_value s) = (ctx_user (context_value s) \<noteq> None) \<and>
   ctx_isAuthenticated
     (context_value (s\<lparr>isLoading := l, confirmation := c, viewAsState := v,
                       storage := st, calls := cs\<rparr>)) = ctx_isAuthenticated (context_value s) \<and>
   ctx_isAuthenticated (context_value (setUser u s)) \<and>
   ctx_isAuthenticated (context_value (s\<lparr>user := None\<rparr>)) = False"
  by (simp add: context_value_def isAuthenticated_def setUser_def)

subsection \<open>C6: the role posted to the backend\<close>

text \<open>The parameter \<open>role\<close> has no effect on what \<open>verifyOTP\<close> does.\<close>

lemma verifyOTP_ignores_role: "verifyOTP env otp r1 s = verifyOTP env otp r2 s"
  by (simp add: verifyOTP_def verifyOTP_closure_def verifyOTP_closure_try_def)

text \<open>
  C6. The claim says that the body posted to \<open>/auth/login\<close> carries the role argument.
  The code at \<open>verifyOTP('123456', 'admin')\<close>, with a pending challenge and collaborators
  that all succeed: the body posted is \<open>{idToken: 'id-token', role: 'customer'}\<close>, and the
  call does exactly what it does for the role \<open>customer\<close>.
\<close>

theorem verifyOTP_posts_constant_role:
  "calls (snd (verifyOTP sample_env ''123456'' ''admin'' sample_session)) =
     [confirm (Confirmation ''v-1'') ''123456'', getIdToken,
      apiService_post ''/auth/login'' (LoginBody ''id-token'' ''customer''),
      AsyncStorage_multiSet
        [(''accessToken'', ''a''), (''refreshToken'', ''b''), (''userProfile'', ''profile-1'')]] \<and>
   body_role (LoginBody ''id-token'' ''customer'') \<noteq> ''admin'' \<and>
   verifyOTP sample_env ''123456'' ''admin'' sample_session =
     verifyOTP sample_env ''123456'' ''customer'' sample_session"
  by (simp add: verifyOTP_def verifyOTP_closure_def verifyOTP_closure_try_def record_call_def
      Let_def sample_env_def sample_session_def)

subsection \<open>C7: nothing stored, nothing validated\<close>

lemma initializeAuth_try_missing:
  assumes missing: "st ''accessToken'' = None \<or> st ''userProfile'' = None"
  shows "initializeAuth_try env (mount st) =
     (case storage_fault env [AsyncStorage_multiGet [''accessToken'', ''userProfile'', ''viewAsState'']] of
        Some e \<Rightarrow> Inl e | None \<Rightarrow> Inr (),
      (mount st)\<lparr>calls := [AsyncStorage_multiGet [''accessToken'', ''userProfile'', ''viewAsState'']]\<rparr>)"
  using missing
  by (auto simp add: initializeAuth_try_def record_call_def Let_def mount_def split: option.splits)

text \<open>
  C7. The component is mounted over a store from which the access credential or the
  profile is missing. Then, whatever the collaborators would answer, \<open>initializeAuth\<close>
  ends with \<open>user\<close> absent and \<open>isLoading\<close> false, and the calls it made are the batched
  read alone, or the read and a purge (when the read itself failed): no call to
  \<open>apiService\<close>.
\<close>

theorem initializeAuth_skips_validation:
  assumes missing: "st ''accessToken'' = None \<or> st ''userProfile'' = None"
  shows "user (snd (initializeAuth env (mount st))) = None \<and>
         \<not> isAuthenticated (snd (initializeAuth env (mount st))) \<and>
         isLoading (snd (initializeAuth env (mount st))) = False \<and>
         (calls (snd (initializeAuth env (mount st))) =
            [AsyncStorage_multiGet [''accessToken'', ''userProfile'', ''viewAsState'']] \<or>
          calls (snd (initializeAuth env (mount st))) =
            [AsyncStorage_multiGet [''accessToken'', ''userProfile'', ''viewAsState''],
             AsyncStorage_multiRemove authKeys]) \<and>
         (\<forall>path. apiService_get path \<notin> set (calls (snd (initializeAuth env (mount st))))) \<and>
         (\<forall>path body. apiService_post path body \<notin> set (calls (snd (initializeAuth env (mount st)))))"
proof -
  let ?get = "AsyncStorage_multiGet [''accessToken'', ''userProfile'', ''viewAsState'']"
  note skipped = initializeAuth_try_missing [OF missing, of env]
  show ?thesis
  proof (cases "storage_fault env [?get]")
    case None
    then have "initializeAuth env (mount st) =
        (Inr (), (mount st)\<lparr>calls := [?get], isLoading := False\<rparr>)"
      using skipped by (simp add: initializeAuth_def)
    then show ?thesis by (simp add: mount_def isAuthenticated_def)
  next
    case (Some e)
    then have "snd (initializeAuth env (mount st)) =
        (snd (clearAuthData env ((mount st)\<lparr>calls := [?get]\<rparr>)))\<lparr>isLoading := False\<rparr>"
      using skipped by (simp add: initializeAuth_def split: prod.splits)
    then show ?thesis
      by (simp add: clearAuthData_def record_call_def Let_def mount_def isAuthenticated_def
          split: option.splits)
  qed
qed

text \<open>Scenario A of the specification: the store is empty.\<close>

theorem initializeAuth_skips_validation_witness:
  "(Map.empty :: string \<rightharpoonup> string) ''accessToken'' = None \<and>
   user (snd (initializeAuth sample_env (mount Map.empty))) = None \<and>
   \<not> isAuthenticated (snd (initializeAuth sample_env (mount Map.empty))) \<and>
   calls (snd (initializeAuth sample_env (mount Map.empty))) =
     [AsyncStorage_multiGet [''accessToken'', ''userProfile'', ''viewAsState'']]"
proof -
  have missing: "(Map.empty :: string \<rightharpoonup> string) ''accessToken'' = None \<or>
      (Map.empty :: string \<rightharpoonup> string) ''userProfile'' = None"
    by simp
  have "calls (snd (initializeAuth sample_env (mount Map.empty))) =
     [AsyncStorage_multiGet [''accessToken'', ''userProfile'', ''viewAsState'']]"
    by (simp add: initializeAuth_def initializeAuth_try_def record_call_def Let_def mount_def
        sample_env_def)
  then show ?thesis
    using initializeAuth_skips_validation [OF missing, of sample_env] by simp
qed

subsection \<open>C8: the phone number handed to the provider\<close>

lemma replace_nonDigits_filter:
  "replace_nonDigits cs = filter (\<lambda>c. c \<in> set ''0123456789'') cs"
  by (induction cs) (simp_all add: nonDigit_def)

text \<open>
  C8. Whatever the phone string, the role and the provider's answer, \<open>sendOTP\<close> makes one
  call, to \<open>signInWithPhoneNumber\<close>, and its argument is \<open>+91\<close> followed by the digits of
  the phone string in their order, every other character dropped. For \<open>9876543210\<close> the
  argument is \<open>+919876543210\<close>.
\<close>

theorem sendOTP_normalizes_phone:
  "calls (snd (sendOTP env phoneNumber customerType' s)) =
     calls s @ [signInWithPhoneNumber
                  (''+91'' @ filter (\<lambda>c. c \<in> set ''0123456789'') phoneNumber)] \<and>
   calls (snd (sendOTP env ''9876543210'' CUSTOMER s)) =
     calls s @ [signInWithPhoneNumber ''+919876543210'']"
  by (simp add: sendOTP_def record_call_def Let_def replace_nonDigits_filter
      split: sum.splits)

subsection \<open>C9: view-as and back\<close>

text \<open>
  C9. From a state that is not viewing as anyone, \<open>enterViewAs\<close> succeeds, keeps the
  current \<open>user\<close> in \<open>originalUser\<close> and sets \<open>isViewingAs\<close>; \<open>exitViewAs\<close> on the state
  it returns gives back the very \<open>user\<close> held before, with \<open>viewAsState\<close> in its empty
  form.
\<close>

theorem viewAs_round_trip:
  assumes "\<not> isViewingAs (viewAsState s)"
  shows "\<exists>s1. enterViewAs env r d s = Some s1 \<and>
           isViewingAs (viewAsState s1) \<and>
           originalUser (viewAsState s1) = user s \<and>
           user (exitViewAs env s1) = user s \<and>
           viewAsState (exitViewAs env s1) = emptyViewAs"
  using assms
  by (simp add: enterViewAs_def exitViewAs_def persistViewAs_def record_call_def Let_def)

theorem viewAs_round_trip_witness:
  "\<not> isViewingAs (viewAsState sample_session) \<and>
   (\<exists>s1. enterViewAs sample_env CUSTOMER
            \<lparr>franchiseId_of = Some ''f-7'', userId_of = Some ''2'',
             franchiseName_of = None, userName_of = None\<rparr> sample_session = Some s1 \<and>
          user (exitViewAs sample_env s1) = Some sample_user \<and>
          viewAsState (exitViewAs sample_env s1) = emptyViewAs)"
proof -
  have idle: "\<not> isViewingAs (viewAsState sample_session)"
    by (simp add: sample_session_def emptyViewAs_def)
  have u: "user sample_session = Some sample_user"
    by (simp add: sample_session_def)
  show ?thesis
    using viewAs_round_trip [OF idle, of sample_env CUSTOMER
        "\<lparr>franchiseId_of = Some ''f-7'', userId_of = Some ''2'',
          franchiseName_of = None, userName_of = None\<rparr>"] idle u
    by auto
qed

subsection \<open>C10: a failed verification drops the challenge\<close>

text \<open>
  \<open>verifyOTP\<close> succeeds only if a challenge is pending and the confirmation, the token
  request, the exchange and the write to the store all succeed: a failure of any of them
  is a failure of \<open>verifyOTP\<close>.
\<close>

lemma verifyOTP_succeeds_only_if:
  assumes "fst (verifyOTP env otp role' s) = Inr v"
  shows "\<exists>c idToken response d.
           confirmation s = Some c \<and>
           confirm_outcome env (calls s @ [confirm c otp]) = None \<and>
           getIdToken_outcome env (calls s @ [confirm c otp, getIdToken]) = Inr idToken \<and>
           post_outcome env
             (calls s @ [confirm c otp, getIdToken,
                         apiService_post ''/auth/login'' (LoginBody idToken ''customer'')]) =
             Inr response \<and>
           login_success response \<and> login_data response = Some d \<and>
           storage_fault env
             (calls s @ [confirm c otp, getIdToken,
                         apiService_post ''/auth/login'' (LoginBody idToken ''customer''),
                         AsyncStorage_multiSet
                           [(''accessToken'', accessToken d), (''refreshToken'', refreshToken d),
                            (''userProfile'', JSON_stringify_User env (userData d))]]) = None"
proof -
  have rethrown: "\<And>e t r t'. verifyOTP_catch e t = (r, t') \<Longrightarrow> r \<noteq> Inr v"
    by (auto simp add: verifyOTP_catch_def Let_def split: if_splits)
  from assms obtain s1 where
    ok: "verifyOTP_closure_try (confirmation s) env otp role' s = (Inr v, s1)"
    by (auto simp add: verifyOTP_def verifyOTP_closure_def split: prod.splits sum.splits
        dest: rethrown)
  then show ?thesis
    by (simp add: verifyOTP_closure_try_def record_call_def Let_def
        split: option.splits sum.splits if_splits)
qed



text \<open>
  A function \<open>verifyOTP\<close> that closes over a handle submits the code to that handle,
  whatever the state cell holds by then.
\<close>

lemma verifyOTP_closure_submits:
  "\<exists>rest. calls (snd (verifyOTP_closure (Some c) env otp role' t)) =
            calls t @ confirm c otp # rest"
  by (auto simp add: verifyOTP_closure_def verifyOTP_closure_try_def verifyOTP_catch_def
      record_call_def Let_def split: option.splits sum.splits)




end
